theory Spec2Isabelle
  imports Complex_Main
begin

section \<open>amp-story embedded component: tooltip overlay and expanded view\<close>

text \<open>
  A shallow embedding of \<^verbatim>\<open>extensions/amp-story/1.0/amp-story-embedded-component.js\<close>.
  JavaScript numbers are modelled as \<^typ>\<open>real\<close>: every concrete input below uses small
  integers and halves, which the source's arithmetic represents exactly.
  Names follow the source; the trailing underscore of private members is dropped.
\<close>

subsection \<open>Layout constants\<close>

definition MIN_VERTICAL_SPACE :: real where
  "MIN_VERTICAL_SPACE = 56"

definition EDGE_PADDING :: real where
  "EDGE_PADDING = 8"

subsection \<open>Rectangles\<close>

text \<open>
  A \<^verbatim>\<open>ClientRect\<close> as returned by \<^verbatim>\<open>getBoundingClientRect()\<close>. The field
  \<^verbatim>\<open>top\<close> is written \<open>top'\<close>. The rectangle's \<^verbatim>\<open>bottom\<close> is its top plus
  its height.
\<close>

record rect =
  top' :: real
  left :: real
  width :: real
  height :: real

definition bottom :: "rect \<Rightarrow> real" where
  "bottom r = top' r + height r"

subsection \<open>Tooltip placement\<close>

text \<open>
  The object \<^verbatim>\<open>state\<close> of \<^verbatim>\<open>positionTooltip_\<close>. It starts as
  \<^verbatim>\<open>{arrowOnTop: false}\<close>; a field not yet written is \<open>None\<close>.
\<close>

record placement =
  arrowOnTop :: bool
  tooltipTop :: "real option"
  tooltipLeft :: "real option"
  arrowLeftOffset :: "real option"

definition initialPlacement :: placement where
  "initialPlacement =
     \<lparr>arrowOnTop = False, tooltipTop = None, tooltipLeft = None, arrowLeftOffset = None\<rparr>"

definition verticalPositioning :: "rect \<Rightarrow> rect \<Rightarrow> placement \<Rightarrow> placement" where
  "verticalPositioning targetRect pageRect st =
     (let targetTopOffset = top' targetRect - top' pageRect;
          targetBottomOffset = bottom targetRect - top' pageRect
      in if targetTopOffset > MIN_VERTICAL_SPACE
         then st\<lparr>tooltipTop := Some (top' targetRect - MIN_VERTICAL_SPACE)\<rparr>
         else if height pageRect - targetBottomOffset > MIN_VERTICAL_SPACE
         then st\<lparr>tooltipTop := Some (bottom targetRect + EDGE_PADDING * 2),
                 arrowOnTop := True\<rparr>
         else st\<lparr>tooltipTop := Some (height pageRect / 2)\<rparr>)"

text \<open>
  \<^verbatim>\<open>horizontalPositioning_\<close> reads \<^verbatim>\<open>this.tooltip_.offsetWidth\<close> and
  \<^verbatim>\<open>this.tooltipArrow_.offsetWidth\<close>; here they are the arguments
  \<open>tooltipWidth\<close> and \<open>arrowWidth\<close>.
\<close>

definition horizontalPositioning ::
  "rect \<Rightarrow> rect \<Rightarrow> real \<Rightarrow> real \<Rightarrow> placement \<Rightarrow> placement" where
  "horizontalPositioning targetRect pageRect tooltipWidth arrowWidth st =
     (let targetLeftOffset = left targetRect - left pageRect;
          elCenterLeft = width targetRect / 2 + targetLeftOffset;
          tooltipLeft0 = elCenterLeft - (tooltipWidth / 2);
          maxHorizontalLeft = width pageRect - tooltipWidth - EDGE_PADDING;
          tooltipLeft1 = min tooltipLeft0 maxHorizontalLeft;
          tooltipLeft2 = max EDGE_PADDING tooltipLeft1;
          arrowLeftOffset0 = \<bar>elCenterLeft - tooltipLeft2 - arrowWidth / 2\<bar>;
          arrowLeftOffset1 = min arrowLeftOffset0 (tooltipWidth - EDGE_PADDING * 3)
      in st\<lparr>tooltipLeft := Some (tooltipLeft2 + left pageRect),
            arrowLeftOffset := Some arrowLeftOffset1\<rparr>)"

text \<open>The measure phase of \<^verbatim>\<open>positionTooltip_\<close>: vertical, then horizontal.\<close>

definition measurePlacement :: "rect \<Rightarrow> rect \<Rightarrow> real \<Rightarrow> real \<Rightarrow> placement" where
  "measurePlacement targetRect pageRect tooltipWidth arrowWidth =
     horizontalPositioning targetRect pageRect tooltipWidth arrowWidth
       (verticalPositioning targetRect pageRect initialPlacement)"

text \<open>
  The arrow offset as the specification words it: the distance between the target's
  midpoint and the clamped tooltip left, minus half the arrow width, clamped into
  \<open>[0, tooltipWidth - 3 * EDGE_PADDING]\<close>. Used only to compare with the source.
\<close>

definition specArrowLeftOffset :: "real \<Rightarrow> real \<Rightarrow> real \<Rightarrow> real \<Rightarrow> real" where
  "specArrowLeftOffset elCenterLeft clampedLeft tooltipWidth arrowWidth =
     max 0 (min (\<bar>elCenterLeft - clampedLeft\<bar> - arrowWidth / 2)
                (tooltipWidth - 3 * EDGE_PADDING))"

subsection \<open>Centering transform of the expanded view\<close>

text \<open>
  The object \<^verbatim>\<open>state\<close> of \<^verbatim>\<open>animateExpanded_\<close> and its measure phase.
\<close>

record translation =
  translateX :: real
  translateY :: real

definition animateExpandedMeasure :: "rect \<Rightarrow> rect \<Rightarrow> translation" where
  "animateExpandedMeasure targetRect pageRect =
     (let centeredTop = height pageRect / 2 - height targetRect / 2;
          centeredLeft = width pageRect / 2 - width targetRect / 2;
          leftOffset = left targetRect - left pageRect;
          topOffset = top' targetRect - top' pageRect
      in \<lparr>translateX = leftOffset - centeredLeft, translateY = centeredTop - topOffset\<rparr>)"

subsection \<open>Elements of the document\<close>

text \<open>
  An interactive element of the story, as far as this file reads it. \<open>ref\<close> is the
  identity of the JavaScript object: \<^verbatim>\<open>target !== this.previousTarget_\<close> compares
  it, so two values with one \<open>ref\<close> are the same element read at two moments.
\<close>

record element =
  ref :: nat
  tagName :: string
  classList :: "string list"
  attributes :: "(string \<times> string) list"
  boundingClientRect :: rect

definition getAttribute :: "element \<Rightarrow> string \<Rightarrow> string option" where
  "getAttribute el name = map_of (attributes el) name"

definition toLowerCaseChar :: "char \<Rightarrow> char" where
  "toLowerCaseChar ch =
     (let n = (of_char ch :: nat) in if 65 \<le> n \<and> n \<le> 90 then char_of (n + 32) else ch)"

definition toLowerCase :: "string \<Rightarrow> string" where
  "toLowerCase s = map toLowerCaseChar s"

text \<open>A JavaScript string or \<^verbatim>\<open>null\<close> is truthy when it is a non-empty string.\<close>

definition truthy :: "string option \<Rightarrow> bool" where
  "truthy v = (case v of None \<Rightarrow> False | Some s \<Rightarrow> s \<noteq> [])"

text \<open>
  Modelled from the spec: \<^verbatim>\<open>matches\<close> is imported from \<^verbatim>\<open>src/dom\<close>, which is
  missing. The classification table of the specification needs two shapes of
  selector: a class selector, and a tag with an attribute (\<^verbatim>\<open>a[href]\<close>).
\<close>

datatype selector = ClassSelector string | TagWithAttribute string string

fun matches :: "element \<Rightarrow> selector \<Rightarrow> bool" where
  "matches el (ClassSelector cls) = (cls \<in> set (classList el))"
| "matches el (TagWithAttribute tag attr) =
     (toLowerCase (tagName el) = tag \<and> getAttribute el attr \<noteq> None)"

definition EXPANDABLE_COMPONENTS :: "string list" where
  "EXPANDABLE_COMPONENTS = [''amp-twitter'']"

definition LINK :: selector where
  "LINK = TagWithAttribute ''a'' ''href''"

definition CLOSE_BUTTON :: selector where
  "CLOSE_BUTTON = ClassSelector ''i-amphtml-expanded-view-close-button''"

definition DEFAULT_ICON_SRC :: string where
  "DEFAULT_ICON_SRC = ''data:image/gif;base64,R0lGODlhAQABAAD/ACwAAAAAAQABAAACADs=''"

subsection \<open>The component and its collaborators\<close>

definition HIDDEN :: nat where "HIDDEN = 0"
definition FOCUSED :: nat where "FOCUSED = 1"
definition EXPANDED :: nat where "EXPANDED = 2"

text \<open>
  The section built by \<^verbatim>\<open>buildFocusedStateTemplate_\<close>: the overlay with its class
  \<^verbatim>\<open>i-amphtml-hidden\<close> and attribute \<^verbatim>\<open>desktop\<close>, and the tooltip anchor with
  what the file writes on it and on its children (text, icon, arrow).
  \<^verbatim>\<open>this.tooltipArrow_\<close> is assigned together with \<^verbatim>\<open>this.tooltip_\<close> and
  nowhere else, so one optional field stands for both.
\<close>

record overlayEl =
  hidden :: bool
  desktop :: bool

record tooltipEl =
  href :: "string option"
  expandListener :: bool
  textContent :: string
  iconSrc :: "string option"
  iconHidden :: bool
  arrowOnTopClass :: bool
  styleTop :: "real option"
  styleLeft :: "real option"
  arrowStyleLeft :: "real option"

datatype action = TOGGLE_EMBEDDED_COMPONENT | TOGGLE_EXPANDED_COMPONENT

datatype UIType = MOBILE | DESKTOP_PANELS | DESKTOP_FULLBLEED

text \<open>
  What the component does to objects it does not own, in order: store dispatches
  (the payload is the target's \<open>ref\<close>, or \<open>None\<close> for \<^verbatim>\<open>null\<close>), log calls,
  writes to the story, the active page and the target elements, and calls on events.
\<close>

datatype effect =
    StoreDispatch action "nat option"
  | DevWarn nat
  | UserError string
  | StoryAppendChild
  | PageAppendOverlay
  | PageExpandedMode bool
  | TargetResetTransform nat
  | TargetAnimateExpandIn nat translation
  | EventPreventDefault
  | EventStopPropagation

datatype error = AssertionFailed | TypeError

record component =
  state :: nat
  focusedStateOverlay :: "overlayEl option"
  tooltip :: "tooltipEl option"
  expandedViewOverlay :: "bool option"
  previousTarget :: "element option"
  effects :: "effect list"

text \<open>
  The collaborators that the file imports are parameters:
  \<^item> \<open>isProtocolValid\<close> and \<open>parseUrlHref\<close> (the \<^verbatim>\<open>href\<close> of
    \<^verbatim>\<open>parseUrlDeprecated\<close>) of \<^verbatim>\<open>src/url\<close>, on a string or \<^verbatim>\<open>null\<close>;
  \<^item> \<open>getSourceOriginForElement\<close> of \<^verbatim>\<open>./utils\<close>;
  \<^item> \<open>addAttributesToElement\<close> of \<^verbatim>\<open>src/dom\<close>, called only as
    \<^verbatim>\<open>addAttributesToElement(tooltip, dict({'href': v}))\<close>: given the tooltip's current
    \<^verbatim>\<open>href\<close> attribute and the value \<open>v\<close> (\<open>None\<close> for \<^verbatim>\<open>undefined\<close>), the
    attribute afterwards;
  \<^item> \<open>activePage\<close>: the bounding rectangle of
    \<^verbatim>\<open>storyEl_.querySelector('amp-story-page[active]')\<close>, \<open>None\<close> when there is none;
  \<^item> \<open>uiState\<close>: the store's current \<^verbatim>\<open>UI_STATE\<close>;
  \<^item> \<open>tooltipOffsetWidth\<close>, \<open>arrowOffsetWidth\<close>: the laid-out widths of the tooltip
    and of its arrow.
\<close>

record env =
  isProtocolValid :: "string option \<Rightarrow> bool"
  parseUrlHref :: "string option \<Rightarrow> string"
  getSourceOriginForElement :: "element \<Rightarrow> string option \<Rightarrow> string"
  addAttributesToElement :: "string option \<Rightarrow> string option \<Rightarrow> string option"
  activePage :: "rect option"
  uiState :: UIType
  tooltipOffsetWidth :: real
  arrowOffsetWidth :: real

text \<open>
  A method returns the component as it has left it and, if it threw, the error.
  Modelled from the spec: \<^verbatim>\<open>devAssert\<close> is imported from \<^verbatim>\<open>src/log\<close>, which is
  missing; a missing handle is "asserted rather than recovered" and aborts the
  operation, here with \<open>AssertionFailed\<close>. Reading a property of \<^verbatim>\<open>null\<close> is
  \<open>TypeError\<close>. The callbacks handed to \<^verbatim>\<open>mutateElement\<close> and
  \<^verbatim>\<open>measureMutateElement\<close> run at once, measure before mutate.
\<close>

type_synonym outcome = "component \<times> error option"

definition ok :: "component \<Rightarrow> outcome" where
  "ok c = (c, None)"

definition throw :: "error \<Rightarrow> component \<Rightarrow> outcome" where
  "throw e c = (c, Some e)"

fun runAll :: "(component \<Rightarrow> outcome) list \<Rightarrow> component \<Rightarrow> outcome" where
  "runAll [] c = (c, None)"
| "runAll (f # fs) c =
     (case f c of (c', None) \<Rightarrow> runAll fs c' | (c', Some e) \<Rightarrow> (c', Some e))"

definition emit :: "effect \<Rightarrow> component \<Rightarrow> component" where
  "emit e c = c\<lparr>effects := effects c @ [e]\<rparr>"

text \<open>The constructor: no element built yet, state \<open>HIDDEN\<close>.\<close>

definition constructor :: component where
  "constructor =
     \<lparr>state = HIDDEN, focusedStateOverlay = None, tooltip = None,
      expandedViewOverlay = None, previousTarget = None, effects = []\<rparr>"

subsection \<open>Tooltip content and behaviour\<close>

text \<open>
  \<^verbatim>\<open>getElementHref_\<close> returns the parsed href, or \<^verbatim>\<open>undefined\<close> (\<open>None\<close>) after
  \<^verbatim>\<open>user().error\<close> when the protocol is not valid.
\<close>

definition getElementHref :: "env \<Rightarrow> element \<Rightarrow> component \<Rightarrow> string option \<times> component" where
  "getElementHref ev target c =
     (let elUrl = getAttribute target ''href''
      in if \<not> isProtocolValid ev elUrl
         then (None, emit (UserError ''The tooltip url is invalid'') c)
         else (Some (parseUrlHref ev elUrl), c))"

definition updateTooltipBehavior :: "env \<Rightarrow> element \<Rightarrow> component \<Rightarrow> outcome" where
  "updateTooltipBehavior ev target c =
     (if matches target LINK
      then (case tooltip c of
              None \<Rightarrow> throw AssertionFailed c
            | Some tt \<Rightarrow>
                (let (h, c1) = getElementHref ev target c
                 in ok (c1\<lparr>tooltip :=
                          Some (tt\<lparr>href := addAttributesToElement ev (href tt) h\<rparr>)\<rparr>)))
      else if toLowerCase (tagName target) \<in> set EXPANDABLE_COMPONENTS
      then (case tooltip c of
              None \<Rightarrow> throw TypeError c
            | Some tt \<Rightarrow> ok (c\<lparr>tooltip := Some (tt\<lparr>expandListener := True\<rparr>)\<rparr>))
      else ok c)"

definition updateTooltipText :: "env \<Rightarrow> element \<Rightarrow> component \<Rightarrow> outcome" where
  "updateTooltipText ev target c =
     (let attr = getAttribute target ''data-tooltip-text'';
          fromOrigin = (let (h, c') = getElementHref ev target c
                        in (getSourceOriginForElement ev target h, c'));
          (tooltipText, c1) =
            (case attr of
               None \<Rightarrow> fromOrigin
             | Some s \<Rightarrow> if s = [] then fromOrigin else (s, c))
      in case tooltip c1 of
           None \<Rightarrow> throw TypeError c1
         | Some tt \<Rightarrow> ok (c1\<lparr>tooltip := Some (tt\<lparr>textContent := tooltipText\<rparr>)\<rparr>))"

definition updateTooltipIcon :: "env \<Rightarrow> element \<Rightarrow> component \<Rightarrow> outcome" where
  "updateTooltipIcon ev target c =
     (let iconUrl = getAttribute target ''data-tooltip-icon''
      in if \<not> isProtocolValid ev iconUrl
         then ok (emit (UserError ''The tooltip icon url is invalid'') c)
         else (let src = (if truthy iconUrl then parseUrlHref ev iconUrl
                          else DEFAULT_ICON_SRC)
               in case tooltip c of
                    None \<Rightarrow> throw TypeError c
                  | Some tt \<Rightarrow>
                      ok (c\<lparr>tooltip := Some (tt\<lparr>iconSrc := Some src,
                                               iconHidden := (src = DEFAULT_ICON_SRC)\<rparr>)\<rparr>)))"

definition positionTooltip :: "env \<Rightarrow> element \<Rightarrow> component \<Rightarrow> outcome" where
  "positionTooltip ev target c =
     (case activePage ev of
        None \<Rightarrow> throw TypeError c
      | Some pageRect \<Rightarrow>
          (case tooltip c of
             None \<Rightarrow> throw TypeError c
           | Some tt \<Rightarrow>
               (let st = measurePlacement (boundingClientRect target) pageRect
                           (tooltipOffsetWidth ev) (arrowOffsetWidth ev)
                in ok (c\<lparr>tooltip :=
                         Some (tt\<lparr>arrowOnTopClass := arrowOnTop st,
                                  arrowStyleLeft := arrowLeftOffset st,
                                  styleTop := tooltipTop st,
                                  styleLeft := tooltipLeft st\<rparr>)\<rparr>))))"

definition updateTooltipEl :: "env \<Rightarrow> element \<Rightarrow> component \<Rightarrow> outcome" where
  "updateTooltipEl ev target c =
     runAll [updateTooltipText ev target, updateTooltipIcon ev target,
             positionTooltip ev target] c"

definition clearTooltip :: "component \<Rightarrow> outcome" where
  "clearTooltip c =
     (case tooltip c of
        None \<Rightarrow> throw TypeError c
      | Some tt \<Rightarrow> ok (c\<lparr>tooltip := Some (tt\<lparr>expandListener := False, href := None\<rparr>)\<rparr>))"

subsection \<open>The focused state\<close>

definition onUIStateUpdate :: "UIType \<Rightarrow> component \<Rightarrow> outcome" where
  "onUIStateUpdate ui c =
     (case focusedStateOverlay c of
        None \<Rightarrow> throw AssertionFailed c
      | Some ov \<Rightarrow>
          ok (c\<lparr>focusedStateOverlay :=
                 Some (ov\<lparr>desktop := (ui = DESKTOP_FULLBLEED \<or> ui = DESKTOP_PANELS)\<rparr>)\<rparr>))"

text \<open>
  \<^verbatim>\<open>buildFocusedStateTemplate_\<close>: the template carries the class
  \<^verbatim>\<open>i-amphtml-hidden\<close>; the anchor has no href, no listener, an empty text.
\<close>

definition buildFocusedStateTemplate :: "component \<Rightarrow> component" where
  "buildFocusedStateTemplate c =
     c\<lparr>focusedStateOverlay := Some \<lparr>hidden = True, desktop = False\<rparr>,
       tooltip := Some \<lparr>href = None, expandListener = False, textContent = [],
                        iconSrc = None, iconHidden = False, arrowOnTopClass = False,
                        styleTop = None, styleLeft = None, arrowStyleLeft = None\<rparr>\<rparr>"

text \<open>
  \<^verbatim>\<open>buildFocusedState_\<close>: the subscription to \<^verbatim>\<open>UI_STATE\<close> is made with
  \<^verbatim>\<open>callToInitialize\<close>, so \<^verbatim>\<open>onUIStateUpdate_\<close> runs once with the current value.
\<close>

definition buildFocusedState :: "env \<Rightarrow> component \<Rightarrow> outcome" where
  "buildFocusedState ev c = onUIStateUpdate (uiState ev) (buildFocusedStateTemplate c)"

definition toggleOverlayHidden :: "bool \<Rightarrow> component \<Rightarrow> outcome" where
  "toggleOverlayHidden b c =
     (case focusedStateOverlay c of
        None \<Rightarrow> throw AssertionFailed c
      | Some ov \<Rightarrow> ok (c\<lparr>focusedStateOverlay := Some (ov\<lparr>hidden := b\<rparr>)\<rparr>))"

definition onFocusedStateUpdate :: "env \<Rightarrow> element option \<Rightarrow> component \<Rightarrow> outcome" where
  "onFocusedStateUpdate ev target c =
     (case target of
        None \<Rightarrow>
          toggleOverlayHidden True (emit (StoreDispatch TOGGLE_EMBEDDED_COMPONENT None) c)
      | Some t \<Rightarrow>
          runAll
            [\<lambda>c. if focusedStateOverlay c = None
                  then runAll [buildFocusedState ev, \<lambda>c. ok (emit StoryAppendChild c)] c
                  else ok c,
             updateTooltipBehavior ev t,
             \<lambda>c. if Some (ref t) \<noteq> map_option ref (previousTarget c)
                  then updateTooltipEl ev t c
                  else ok c,
             \<lambda>c. ok (c\<lparr>previousTarget := Some t\<rparr>),
             toggleOverlayHidden False] c)"

subsection \<open>The expanded view\<close>

definition animateExpanded :: "env \<Rightarrow> element \<Rightarrow> component \<Rightarrow> outcome" where
  "animateExpanded ev target c =
     (case activePage ev of
        None \<Rightarrow> throw TypeError c
      | Some pageRect \<Rightarrow>
          ok (emit (TargetAnimateExpandIn (ref target)
                      (animateExpandedMeasure (boundingClientRect target) pageRect)) c))"

definition buildAndAppendExpandedViewOverlay :: "component \<Rightarrow> outcome" where
  "buildAndAppendExpandedViewOverlay c =
     ok (emit PageAppendOverlay (c\<lparr>expandedViewOverlay := Some True\<rparr>))"

definition toggleExpandedView :: "env \<Rightarrow> element option \<Rightarrow> component \<Rightarrow> outcome" where
  "toggleExpandedView ev targetToExpand c =
     (case activePage ev of
        None \<Rightarrow> throw AssertionFailed c
      | Some pageRect \<Rightarrow>
          (case targetToExpand of
             None \<Rightarrow>
               (case expandedViewOverlay c of
                  None \<Rightarrow> ok c
                | Some shown \<Rightarrow>
                    (let c1 = (emit (PageExpandedMode False) c)\<lparr>expandedViewOverlay := Some False\<rparr>
                     in case previousTarget c1 of
                          None \<Rightarrow> throw AssertionFailed c1
                        | Some p \<Rightarrow> ok (emit (TargetResetTransform (ref p)) c1)))
           | Some t \<Rightarrow>
               runAll
                 [animateExpanded ev t,
                  \<lambda>c. if expandedViewOverlay c = None
                       then buildAndAppendExpandedViewOverlay c else ok c,
                  \<lambda>c. ok (emit (PageExpandedMode True) (c\<lparr>expandedViewOverlay := Some True\<rparr>))]
                 c))"

subsection \<open>The state machine\<close>

text \<open>
  The \<^verbatim>\<open>default\<close> branches call \<^verbatim>\<open>dev().warn\<close> with \<^verbatim>\<open>this.state_\<close> in the
  message, also in \<^verbatim>\<open>setState_\<close>, and then \<^verbatim>\<open>break\<close>.
\<close>

definition setState :: "env \<Rightarrow> nat \<Rightarrow> element option \<Rightarrow> component \<Rightarrow> outcome" where
  "setState ev st target c =
     (if st = FOCUSED \<or> st = HIDDEN
      then onFocusedStateUpdate ev target (c\<lparr>state := st\<rparr>)
      else if st = EXPANDED
      then runAll [onFocusedStateUpdate ev None, toggleExpandedView ev target]
             (c\<lparr>state := st\<rparr>)
      else ok (emit (DevWarn (state c)) c))"

definition removeExpandListener :: "component \<Rightarrow> outcome" where
  "removeExpandListener c =
     (case tooltip c of
        None \<Rightarrow> throw TypeError c
      | Some tt \<Rightarrow> ok (c\<lparr>tooltip := Some (tt\<lparr>expandListener := False\<rparr>)\<rparr>))"

definition maybeCloseExpandedView :: "env \<Rightarrow> element option \<Rightarrow> component \<Rightarrow> outcome" where
  "maybeCloseExpandedView ev target c =
     (case target of
        None \<Rightarrow> ok c
      | Some t \<Rightarrow>
          if matches t CLOSE_BUTTON
          then runAll
                 [setState ev HIDDEN None,
                  toggleExpandedView ev None,
                  removeExpandListener,
                  \<lambda>c. ok (emit (StoreDispatch TOGGLE_EXPANDED_COMPONENT None) c)] c
          else ok c)"

definition onEmbeddedComponentUpdate :: "env \<Rightarrow> element option \<Rightarrow> component \<Rightarrow> outcome" where
  "onEmbeddedComponentUpdate ev target c =
     (if state c = FOCUSED \<or> state c = HIDDEN
      then (case target of
              Some t \<Rightarrow> setState ev FOCUSED (Some t) c
            | None \<Rightarrow> setState ev HIDDEN None c)
      else if state c = EXPANDED
      then maybeCloseExpandedView ev target c
      else ok (emit (DevWarn (state c)) c))"

definition closeFocusedState :: "env \<Rightarrow> component \<Rightarrow> outcome" where
  "closeFocusedState ev c = runAll [clearTooltip, setState ev HIDDEN None] c"

text \<open>
  \<^verbatim>\<open>onOutsideTooltipClick_\<close>: \<open>insideTooltip\<close> says whether the event's target has the
  tooltip as itself or an ancestor (\<^verbatim>\<open>closest\<close>).
\<close>

definition onOutsideTooltipClick :: "env \<Rightarrow> bool \<Rightarrow> component \<Rightarrow> outcome" where
  "onOutsideTooltipClick ev insideTooltip c =
     (if \<not> insideTooltip
      then runAll [\<lambda>c. ok (emit EventStopPropagation c), closeFocusedState ev] c
      else ok c)"

text \<open>
  The subscriber to \<^verbatim>\<open>CURRENT_PAGE_ID\<close> installed by \<^verbatim>\<open>buildFocusedState_\<close>:
  \<open>embeddedComponent\<close> says whether the store holds a target.
\<close>

definition onCurrentPageIdUpdate :: "env \<Rightarrow> bool \<Rightarrow> component \<Rightarrow> outcome" where
  "onCurrentPageIdUpdate ev embeddedComponent c =
     (if embeddedComponent then closeFocusedState ev c else ok c)"

definition onExpandComponent :: "env \<Rightarrow> component \<Rightarrow> outcome" where
  "onExpandComponent ev c =
     runAll
       [\<lambda>c. ok (emit EventPreventDefault c),
        \<lambda>c. ok (emit EventStopPropagation c),
        \<lambda>c. setState ev EXPANDED (previousTarget c) c,
        \<lambda>c. ok (emit (StoreDispatch TOGGLE_EXPANDED_COMPONENT
                         (map_option ref (previousTarget c))) c)] c"

subsection \<open>A concrete environment and concrete targets\<close>

text \<open>
  Modelled from the spec: \<^verbatim>\<open>isProtocolValid\<close> of \<^verbatim>\<open>src/url\<close> is missing. Protocol
  validation rejects "non-http(s)/mailto-class schemes"; an undeclared URL passes (the
  icon rule then uses the placeholder).
\<close>

definition startsWith :: "string \<Rightarrow> string \<Rightarrow> bool" where
  "startsWith p s = (take (length p) s = p)"

definition specIsProtocolValid :: "string option \<Rightarrow> bool" where
  "specIsProtocolValid url =
     (case url of
        None \<Rightarrow> True
      | Some s \<Rightarrow> s = [] \<or> startsWith ''http://'' s \<or> startsWith ''https://'' s
                   \<or> startsWith ''mailto:'' s)"

text \<open>
  Modelled from the spec: \<^verbatim>\<open>addAttributesToElement\<close> of \<^verbatim>\<open>src/dom\<close> is missing, and
  the specification only lists the attribute helpers as external collaborators. This
  instance writes the entry of the dictionary with the DOM's \<^verbatim>\<open>setAttribute\<close>, which
  converts the value to a string: \<^verbatim>\<open>undefined\<close> becomes the text \<^verbatim>\<open>undefined\<close>.
\<close>

definition domAddAttributesToElement :: "string option \<Rightarrow> string option \<Rightarrow> string option" where
  "domAddAttributesToElement old v =
     Some (case v of None \<Rightarrow> ''undefined'' | Some s \<Rightarrow> s)"

text \<open>
  The other collaborators of \<open>sampleEnv\<close> are stand-ins: the parsed href of a URL is the
  URL itself, the source origin is the href. The active page is 400 by 600 at the
  origin, the tooltip 200 wide, its arrow 10 wide.
\<close>

definition sampleEnv :: env where
  "sampleEnv =
     \<lparr>isProtocolValid = specIsProtocolValid,
      parseUrlHref = (\<lambda>u. case u of None \<Rightarrow> ''null'' | Some s \<Rightarrow> s),
      getSourceOriginForElement = (\<lambda>el h. case h of None \<Rightarrow> [] | Some s \<Rightarrow> s),
      addAttributesToElement = domAddAttributesToElement,
      activePage = Some \<lparr>top' = 0, left = 0, width = 400, height = 600\<rparr>,
      uiState = MOBILE,
      tooltipOffsetWidth = 200,
      arrowOffsetWidth = 10\<rparr>"

definition twitterTarget :: element where
  "twitterTarget =
     \<lparr>ref = 1, tagName = ''AMP-TWITTER'', classList = [],
      attributes = [(''data-tooltip-text'', ''Tweet'')],
      boundingClientRect = \<lparr>top' = 100, left = 50, width = 100, height = 100\<rparr>\<rparr>"

definition linkTarget :: element where
  "linkTarget =
     \<lparr>ref = 2, tagName = ''A'', classList = [],
      attributes = [(''href'', ''https://example.com/'')],
      boundingClientRect = \<lparr>top' = 300, left = 180, width = 40, height = 40\<rparr>\<rparr>"

definition javascriptLinkTarget :: element where
  "javascriptLinkTarget =
     \<lparr>ref = 3, tagName = ''A'', classList = [],
      attributes = [(''href'', ''javascript:alert(1)'')],
      boundingClientRect = \<lparr>top' = 10, left = 180, width = 40, height = 40\<rparr>\<rparr>"

definition closeButtonTarget :: element where
  "closeButtonTarget =
     \<lparr>ref = 4, tagName = ''SPAN'', classList = [''i-amphtml-expanded-view-close-button''],
      attributes = [],
      boundingClientRect = \<lparr>top' = 0, left = 360, width = 40, height = 40\<rparr>\<rparr>"

text \<open>
  Three components reached from the constructor: focused on the expandable target,
  expanded on it, and focused on the link.
\<close>

definition focusedOnTwitter :: component where
  "focusedOnTwitter = fst (onEmbeddedComponentUpdate sampleEnv (Some twitterTarget) constructor)"

definition expandedOnTwitter :: component where
  "expandedOnTwitter = fst (onExpandComponent sampleEnv focusedOnTwitter)"

definition focusedOnLink :: component where
  "focusedOnLink = fst (onEmbeddedComponentUpdate sampleEnv (Some linkTarget) constructor)"

text \<open>
  What \<^verbatim>\<open>updateTooltipEl_\<close> writes: the text, the icon and the position of the tooltip
  and of its arrow.
\<close>

definition boundContent ::
  "component \<Rightarrow>
     (string \<times> string option \<times> bool \<times> bool \<times> real option \<times> real option \<times> real option) option"
  where
  "boundContent c =
     map_option (\<lambda>tt. (textContent tt, iconSrc tt, iconHidden tt, arrowOnTopClass tt,
                        styleTop tt, styleLeft tt, arrowStyleLeft tt)) (tooltip c)"

section \<open>Tooltip placement and the centering transform\<close>

text \<open>
  C2, as stated, at a concrete input: the target's top is exactly
  \<open>MIN_VERTICAL_SPACE\<close> below the page's top, and the first rule is not selected
  (the tooltip goes below the target, at 112, with the arrow on top).
\<close>

theorem verticalPositioning_boundary_counterexample:
  "top' \<lparr>top' = 56, left = 180, width = 40, height = 40\<rparr>
     - top' \<lparr>top' = 0, left = 0, width = 400, height = 600\<rparr> = MIN_VERTICAL_SPACE
   \<and> \<not> (tooltipTop (verticalPositioning \<lparr>top' = 56, left = 180, width = 40, height = 40\<rparr>
            \<lparr>top' = 0, left = 0, width = 400, height = 600\<rparr> initialPlacement)
          = Some (top' \<lparr>top' = 56, left = 180, width = 40, height = 40\<rparr> - MIN_VERTICAL_SPACE)
        \<and> arrowOnTop (verticalPositioning \<lparr>top' = 56, left = 180, width = 40, height = 40\<rparr>
            \<lparr>top' = 0, left = 0, width = 400, height = 600\<rparr> initialPlacement) = False)"
  by (simp add: verticalPositioning_def initialPlacement_def MIN_VERTICAL_SPACE_def
        EDGE_PADDING_def bottom_def)

text \<open>
  C2, amended: the comparison of the first rule is strict. When the space above the
  target exceeds \<open>MIN_VERTICAL_SPACE\<close>, the tooltip is placed at
  \<open>targetTop - MIN_VERTICAL_SPACE\<close> with the arrow below. When the space above is
  exactly \<open>MIN_VERTICAL_SPACE\<close>, the first rule is not selected: the tooltip goes to
  \<open>targetBottom + 2 * EDGE_PADDING\<close> with the arrow on top if the space below exceeds
  \<open>MIN_VERTICAL_SPACE\<close>, and to half the page's height otherwise.
\<close>

theorem verticalPositioning_boundary_strict:
  "(MIN_VERTICAL_SPACE < top' t - top' p \<longrightarrow>
      tooltipTop (verticalPositioning t p initialPlacement) = Some (top' t - MIN_VERTICAL_SPACE)
      \<and> arrowOnTop (verticalPositioning t p initialPlacement) = False)
   \<and> (top' t - top' p = MIN_VERTICAL_SPACE \<longrightarrow>
        (MIN_VERTICAL_SPACE < height p - (bottom t - top' p) \<longrightarrow>
           tooltipTop (verticalPositioning t p initialPlacement)
             = Some (bottom t + 2 * EDGE_PADDING)
           \<and> arrowOnTop (verticalPositioning t p initialPlacement) = True)
        \<and> (height p - (bottom t - top' p) \<le> MIN_VERTICAL_SPACE \<longrightarrow>
           tooltipTop (verticalPositioning t p initialPlacement) = Some (height p / 2)
           \<and> arrowOnTop (verticalPositioning t p initialPlacement) = False))"
  by (simp add: verticalPositioning_def initialPlacement_def Let_def)

text \<open>
  The amended C2 at three inputs: 300 above (rule 1), exactly 56 above with room below
  (rule 2), exactly 56 above with no room below (rule 3).
\<close>

theorem verticalPositioning_boundary_strict_witness:
  "tooltipTop (verticalPositioning \<lparr>top' = 300, left = 180, width = 40, height = 40\<rparr>
      \<lparr>top' = 0, left = 0, width = 400, height = 600\<rparr> initialPlacement) = Some 244
   \<and> arrowOnTop (verticalPositioning \<lparr>top' = 300, left = 180, width = 40, height = 40\<rparr>
      \<lparr>top' = 0, left = 0, width = 400, height = 600\<rparr> initialPlacement) = False
   \<and> tooltipTop (verticalPositioning \<lparr>top' = 56, left = 180, width = 40, height = 40\<rparr>
      \<lparr>top' = 0, left = 0, width = 400, height = 600\<rparr> initialPlacement) = Some 112
   \<and> arrowOnTop (verticalPositioning \<lparr>top' = 56, left = 180, width = 40, height = 40\<rparr>
      \<lparr>top' = 0, left = 0, width = 400, height = 600\<rparr> initialPlacement) = True
   \<and> tooltipTop (verticalPositioning \<lparr>top' = 56, left = 180, width = 40, height = 500\<rparr>
      \<lparr>top' = 0, left = 0, width = 400, height = 600\<rparr> initialPlacement) = Some 300
   \<and> arrowOnTop (verticalPositioning \<lparr>top' = 56, left = 180, width = 40, height = 500\<rparr>
      \<lparr>top' = 0, left = 0, width = 400, height = 600\<rparr> initialPlacement) = False"
  using verticalPositioning_boundary_strict
          [of "\<lparr>top' = 300, left = 180, width = 40, height = 40\<rparr>"
              "\<lparr>top' = 0, left = 0, width = 400, height = 600\<rparr>"]
        verticalPositioning_boundary_strict
          [of "\<lparr>top' = 56, left = 180, width = 40, height = 40\<rparr>"
              "\<lparr>top' = 0, left = 0, width = 400, height = 600\<rparr>"]
        verticalPositioning_boundary_strict
          [of "\<lparr>top' = 56, left = 180, width = 40, height = 500\<rparr>"
              "\<lparr>top' = 0, left = 0, width = 400, height = 600\<rparr>"]
  by (simp add: MIN_VERTICAL_SPACE_def EDGE_PADDING_def bottom_def)

text \<open>
  C3, as stated, at a concrete input: the space above is 10 and the space below is
  exactly \<open>MIN_VERTICAL_SPACE\<close>, yet the second rule is not selected (the tooltip is
  centred at 300 and the arrow stays below).
\<close>

theorem verticalPositioning_below_counterexample:
  "\<not> (MIN_VERTICAL_SPACE \<le> top' \<lparr>top' = 10, left = 180, width = 40, height = 534\<rparr>
          - top' \<lparr>top' = 0, left = 0, width = 400, height = 600\<rparr>)
   \<and> MIN_VERTICAL_SPACE \<le> height \<lparr>top' = 0, left = 0, width = 400, height = 600\<rparr>
          - (bottom \<lparr>top' = 10, left = 180, width = 40, height = 534\<rparr>
             - top' \<lparr>top' = 0, left = 0, width = 400, height = 600\<rparr>)
   \<and> tooltipTop (verticalPositioning \<lparr>top' = 10, left = 180, width = 40, height = 534\<rparr>
          \<lparr>top' = 0, left = 0, width = 400, height = 600\<rparr> initialPlacement)
        \<noteq> Some (bottom \<lparr>top' = 10, left = 180, width = 40, height = 534\<rparr> + 2 * EDGE_PADDING)
   \<and> arrowOnTop (verticalPositioning \<lparr>top' = 10, left = 180, width = 40, height = 534\<rparr>
          \<lparr>top' = 0, left = 0, width = 400, height = 600\<rparr> initialPlacement) \<noteq> True"
  by (simp add: verticalPositioning_def initialPlacement_def MIN_VERTICAL_SPACE_def
        EDGE_PADDING_def bottom_def)

text \<open>
  C3, amended: the vertical rules are tried in order, first match wins, and both
  comparisons are strict. If the space above the target exceeds \<open>MIN_VERTICAL_SPACE\<close>
  then \<open>tooltipTop = targetTop - 56\<close> with \<open>arrowOnTop = false\<close>; else if the space
  below exceeds \<open>MIN_VERTICAL_SPACE\<close> then \<open>tooltipTop = targetBottom + 16\<close> with
  \<open>arrowOnTop = true\<close>; else \<open>tooltipTop = containerHeight / 2\<close>. For the container
  \<open>{top:0, left:0, width:400, height:600}\<close> and the target
  \<open>{top:10, left:180, width:40, height:40}\<close> the result is \<open>tooltipTop = 66\<close> and
  \<open>arrowOnTop = true\<close>.
\<close>

theorem verticalPositioning_rules:
  "(MIN_VERTICAL_SPACE < top' t - top' p \<longrightarrow>
      tooltipTop (verticalPositioning t p initialPlacement) = Some (top' t - 56)
      \<and> arrowOnTop (verticalPositioning t p initialPlacement) = False)
   \<and> (top' t - top' p \<le> MIN_VERTICAL_SPACE
        \<and> MIN_VERTICAL_SPACE < height p - (bottom t - top' p) \<longrightarrow>
      tooltipTop (verticalPositioning t p initialPlacement) = Some (bottom t + 16)
      \<and> arrowOnTop (verticalPositioning t p initialPlacement) = True)
   \<and> (top' t - top' p \<le> MIN_VERTICAL_SPACE
        \<and> height p - (bottom t - top' p) \<le> MIN_VERTICAL_SPACE \<longrightarrow>
      tooltipTop (verticalPositioning t p initialPlacement) = Some (height p / 2))
   \<and> tooltipTop (verticalPositioning \<lparr>top' = 10, left = 180, width = 40, height = 40\<rparr>
          \<lparr>top' = 0, left = 0, width = 400, height = 600\<rparr> initialPlacement) = Some 66
   \<and> arrowOnTop (verticalPositioning \<lparr>top' = 10, left = 180, width = 40, height = 40\<rparr>
          \<lparr>top' = 0, left = 0, width = 400, height = 600\<rparr> initialPlacement) = True"
  by (simp add: verticalPositioning_def initialPlacement_def Let_def MIN_VERTICAL_SPACE_def
        EDGE_PADDING_def bottom_def)

text \<open>The amended C3 at one input for each rule, on a page whose top is at 20.\<close>

theorem verticalPositioning_rules_witness:
  "tooltipTop (verticalPositioning \<lparr>top' = 100, left = 0, width = 50, height = 20\<rparr>
      \<lparr>top' = 20, left = 0, width = 300, height = 500\<rparr> initialPlacement) = Some 44
   \<and> tooltipTop (verticalPositioning \<lparr>top' = 30, left = 0, width = 50, height = 20\<rparr>
      \<lparr>top' = 20, left = 0, width = 300, height = 500\<rparr> initialPlacement) = Some 66
   \<and> tooltipTop (verticalPositioning \<lparr>top' = 30, left = 0, width = 50, height = 480\<rparr>
      \<lparr>top' = 20, left = 0, width = 300, height = 500\<rparr> initialPlacement) = Some 250"
  using verticalPositioning_rules
          [of "\<lparr>top' = 100, left = 0, width = 50, height = 20\<rparr>"
              "\<lparr>top' = 20, left = 0, width = 300, height = 500\<rparr>"]
        verticalPositioning_rules
          [of "\<lparr>top' = 30, left = 0, width = 50, height = 20\<rparr>"
              "\<lparr>top' = 20, left = 0, width = 300, height = 500\<rparr>"]
        verticalPositioning_rules
          [of "\<lparr>top' = 30, left = 0, width = 50, height = 480\<rparr>"
              "\<lparr>top' = 20, left = 0, width = 300, height = 500\<rparr>"]
  by (simp add: MIN_VERTICAL_SPACE_def bottom_def)

text \<open>
  C4, as stated, at a concrete input: the page is 100 wide and the tooltip 200, so the
  upper bound is \<open>-108\<close>; the centred left \<open>-50\<close> exceeds it, and the result is
  \<open>EDGE_PADDING\<close>, not the bound.
\<close>

theorem horizontalPositioning_clamp_counterexample:
  "width \<lparr>top' = 0, left = 0, width = 100, height = 600\<rparr> - 200 - EDGE_PADDING
     < width \<lparr>top' = 300, left = 40, width = 20, height = 40\<rparr> / 2
       + (left \<lparr>top' = 300, left = 40, width = 20, height = 40\<rparr>
          - left \<lparr>top' = 0, left = 0, width = 100, height = 600\<rparr>) - 200 / 2
   \<and> tooltipLeft (horizontalPositioning \<lparr>top' = 300, left = 40, width = 20, height = 40\<rparr>
         \<lparr>top' = 0, left = 0, width = 100, height = 600\<rparr> 200 10 initialPlacement)
       \<noteq> Some (width \<lparr>top' = 0, left = 0, width = 100, height = 600\<rparr> - 200 - EDGE_PADDING
                + left \<lparr>top' = 0, left = 0, width = 100, height = 600\<rparr>)
   \<and> tooltipLeft (horizontalPositioning \<lparr>top' = 300, left = 40, width = 20, height = 40\<rparr>
         \<lparr>top' = 0, left = 0, width = 100, height = 600\<rparr> 200 10 initialPlacement)
       = Some 8"
  by (simp add: horizontalPositioning_def initialPlacement_def EDGE_PADDING_def)

text \<open>
  C4, amended: the tooltip is centred on the target's horizontal midpoint and then
  clamped, the lower bound last: the left is
  \<open>max EDGE_PADDING (min centred (containerWidth - tooltipWidth - EDGE_PADDING))\<close>.
  Where the centred left exceeds \<open>containerWidth - tooltipWidth - EDGE_PADDING\<close> and
  that bound is at least \<open>EDGE_PADDING\<close>, the result is that bound; where the centred
  left is below \<open>EDGE_PADDING\<close>, the result is \<open>EDGE_PADDING\<close>; where the bound
  itself is below \<open>EDGE_PADDING\<close> (the container is narrower than the tooltip plus
  twice the padding), the result is \<open>EDGE_PADDING\<close> whatever the centred left is;
  and where the centred left lies between \<open>EDGE_PADDING\<close> and the bound, the result
  is the centred left. These four cases cover every input. In each case the
  container's left is then added.
\<close>

theorem horizontalPositioning_clamp:
  "tooltipLeft (horizontalPositioning t p w a st)
     = Some (max EDGE_PADDING (min (width t / 2 + (left t - left p) - w / 2)
                                   (width p - w - EDGE_PADDING)) + left p)
   \<and> (width p - w - EDGE_PADDING < width t / 2 + (left t - left p) - w / 2
      \<and> EDGE_PADDING \<le> width p - w - EDGE_PADDING \<longrightarrow>
      tooltipLeft (horizontalPositioning t p w a st)
        = Some (width p - w - EDGE_PADDING + left p))
   \<and> (width t / 2 + (left t - left p) - w / 2 < EDGE_PADDING \<longrightarrow>
      tooltipLeft (horizontalPositioning t p w a st) = Some (EDGE_PADDING + left p))
   \<and> (EDGE_PADDING \<le> width t / 2 + (left t - left p) - w / 2
      \<and> width t / 2 + (left t - left p) - w / 2 \<le> width p - w - EDGE_PADDING \<longrightarrow>
      tooltipLeft (horizontalPositioning t p w a st)
        = Some (width t / 2 + (left t - left p) - w / 2 + left p))
   \<and> (width p - w - EDGE_PADDING < EDGE_PADDING \<longrightarrow>
      tooltipLeft (horizontalPositioning t p w a st) = Some (EDGE_PADDING + left p))
   \<and> (width t / 2 + (left t - left p) - w / 2 < EDGE_PADDING
      \<or> width p - w - EDGE_PADDING < EDGE_PADDING
      \<or> (EDGE_PADDING \<le> width t / 2 + (left t - left p) - w / 2
          \<and> width t / 2 + (left t - left p) - w / 2 \<le> width p - w - EDGE_PADDING)
      \<or> (width p - w - EDGE_PADDING < width t / 2 + (left t - left p) - w / 2
          \<and> EDGE_PADDING \<le> width p - w - EDGE_PADDING))"
  by (auto simp add: horizontalPositioning_def Let_def min_def max_def)

text \<open>
  The amended C4 on a page whose left is at 20: a target at the right edge (clamped to
  the upper bound 192), at the left edge (clamped to 8), and in the middle; and on a
  page 100 wide, narrower than the tooltip, where the centred left is 60 and the result
  is the padding 8.
\<close>

theorem horizontalPositioning_clamp_witness:
  "tooltipLeft (horizontalPositioning \<lparr>top' = 300, left = 390, width = 40, height = 40\<rparr>
      \<lparr>top' = 0, left = 20, width = 400, height = 600\<rparr> 200 10 initialPlacement) = Some 212
   \<and> tooltipLeft (horizontalPositioning \<lparr>top' = 300, left = 30, width = 40, height = 40\<rparr>
      \<lparr>top' = 0, left = 20, width = 400, height = 600\<rparr> 200 10 initialPlacement) = Some 28
   \<and> tooltipLeft (horizontalPositioning \<lparr>top' = 300, left = 200, width = 40, height = 40\<rparr>
      \<lparr>top' = 0, left = 20, width = 400, height = 600\<rparr> 200 10 initialPlacement) = Some 120
   \<and> tooltipLeft (horizontalPositioning \<lparr>top' = 300, left = 170, width = 20, height = 40\<rparr>
      \<lparr>top' = 0, left = 20, width = 100, height = 600\<rparr> 200 10 initialPlacement) = Some 28"
  using horizontalPositioning_clamp
          [of "\<lparr>top' = 300, left = 390, width = 40, height = 40\<rparr>"
              "\<lparr>top' = 0, left = 20, width = 400, height = 600\<rparr>" 200 10 initialPlacement]
        horizontalPositioning_clamp
          [of "\<lparr>top' = 300, left = 30, width = 40, height = 40\<rparr>"
              "\<lparr>top' = 0, left = 20, width = 400, height = 600\<rparr>" 200 10 initialPlacement]
        horizontalPositioning_clamp
          [of "\<lparr>top' = 300, left = 200, width = 40, height = 40\<rparr>"
              "\<lparr>top' = 0, left = 20, width = 400, height = 600\<rparr>" 200 10 initialPlacement]
        horizontalPositioning_clamp
          [of "\<lparr>top' = 300, left = 170, width = 20, height = 40\<rparr>"
              "\<lparr>top' = 0, left = 20, width = 100, height = 600\<rparr>" 200 10 initialPlacement]
  by (simp add: EDGE_PADDING_def)

text \<open>
  C5, as stated, at a concrete input: a target 20 wide at the page's left edge, a
  tooltip 200 wide and an arrow 10 wide. The clamped tooltip left is 8 and the source
  gives the arrow the offset 3, where the formula of the specification gives 0.
\<close>

theorem arrowLeftOffset_counterexample:
  "tooltipLeft (horizontalPositioning \<lparr>top' = 300, left = 0, width = 20, height = 40\<rparr>
       \<lparr>top' = 0, left = 0, width = 400, height = 600\<rparr> 200 10 initialPlacement) = Some 8
   \<and> arrowLeftOffset (horizontalPositioning \<lparr>top' = 300, left = 0, width = 20, height = 40\<rparr>
       \<lparr>top' = 0, left = 0, width = 400, height = 600\<rparr> 200 10 initialPlacement) = Some 3
   \<and> specArrowLeftOffset
        (width \<lparr>top' = 300, left = 0, width = 20, height = 40\<rparr> / 2
          + (left \<lparr>top' = 300, left = 0, width = 20, height = 40\<rparr>
             - left \<lparr>top' = 0, left = 0, width = 400, height = 600\<rparr>)) 8 200 10 = 0"
  by (simp add: horizontalPositioning_def initialPlacement_def EDGE_PADDING_def
        specArrowLeftOffset_def)

text \<open>
  C5, amended: the arrow's horizontal offset is the absolute value of (target midpoint
  minus clamped tooltip left minus half the arrow width), capped at
  \<open>tooltipWidth - 3 * EDGE_PADDING\<close>. It never exceeds \<open>tooltipWidth - 24\<close>, and it
  is not negative whenever the tooltip is at least 24 wide.
\<close>

theorem arrowLeftOffset_bounds:
  "\<exists>v. arrowLeftOffset (horizontalPositioning t p w a st) = Some v
     \<and> v = min \<bar>width t / 2 + (left t - left p)
                   - max EDGE_PADDING (min (width t / 2 + (left t - left p) - w / 2)
                                           (width p - w - EDGE_PADDING))
                   - a / 2\<bar>
                (w - 3 * EDGE_PADDING)
     \<and> v \<le> w - 24
     \<and> (24 \<le> w \<longrightarrow> 0 \<le> v)"
  by (simp add: horizontalPositioning_def Let_def EDGE_PADDING_def)

text \<open>The amended C5 at the input of the counterexample: the offset is 3.\<close>

theorem arrowLeftOffset_bounds_witness:
  "\<exists>v. arrowLeftOffset (horizontalPositioning \<lparr>top' = 300, left = 0, width = 20, height = 40\<rparr>
       \<lparr>top' = 0, left = 0, width = 400, height = 600\<rparr> 200 10 initialPlacement) = Some v
     \<and> v = 3 \<and> 0 \<le> v"
  using arrowLeftOffset_bounds
          [of "\<lparr>top' = 300, left = 0, width = 20, height = 40\<rparr>"
              "\<lparr>top' = 0, left = 0, width = 400, height = 600\<rparr>" 200 10 initialPlacement]
  by (simp add: EDGE_PADDING_def)

text \<open>
  C6: for every target and page rectangle the centering transform is
  \<open>translateY = (containerHeight/2 - targetHeight/2) - (targetTop - containerTop)\<close> and
  \<open>translateX = (targetLeft - containerLeft) - (containerWidth/2 - targetWidth/2)\<close>; for
  the target \<open>{top:100, left:50, width:100, height:100}\<close> in the container
  \<open>{top:0, left:0, width:400, height:400}\<close> it is \<open>translateY = 50\<close>,
  \<open>translateX = -100\<close>.
\<close>

theorem animateExpanded_transform:
  "translateY (animateExpandedMeasure t p)
     = (height p / 2 - height t / 2) - (top' t - top' p)
   \<and> translateX (animateExpandedMeasure t p)
     = (left t - left p) - (width p / 2 - width t / 2)
   \<and> translateY (animateExpandedMeasure \<lparr>top' = 100, left = 50, width = 100, height = 100\<rparr>
        \<lparr>top' = 0, left = 0, width = 400, height = 400\<rparr>) = 50
   \<and> translateX (animateExpandedMeasure \<lparr>top' = 100, left = 50, width = 100, height = 100\<rparr>
        \<lparr>top' = 0, left = 0, width = 400, height = 400\<rparr>) = - 100"
  by (simp add: animateExpandedMeasure_def Let_def)

section \<open>The state machine\<close>

subsection \<open>Sequencing and the state field\<close>

lemma ComponentState_distinct:
  "HIDDEN \<noteq> FOCUSED" "HIDDEN \<noteq> EXPANDED" "FOCUSED \<noteq> EXPANDED"
  "FOCUSED \<noteq> HIDDEN" "EXPANDED \<noteq> HIDDEN" "EXPANDED \<noteq> FOCUSED"
  by (simp_all add: HIDDEN_def FOCUSED_def EXPANDED_def)

lemma runAll_state:
  "(\<And>f c. f \<in> set fs \<Longrightarrow> state (fst (f c)) = state c) \<Longrightarrow>
   state (fst (runAll fs c)) = state c"
proof (induction fs arbitrary: c)
  case Nil
  then show ?case by simp
next
  case (Cons f fs)
  have step: "state (fst (f c)) = state c" using Cons.prems by simp
  show ?case
  proof (cases "f c")
    case (Pair c' r)
    with step have c': "state c' = state c" by simp
    show ?thesis
    proof (cases r)
      case None
      have "state (fst (runAll fs c')) = state c'"
        using Cons.IH Cons.prems by simp
      with Pair None c' show ?thesis by simp
    next
      case (Some e)
      with Pair c' show ?thesis by simp
    qed
  qed
qed

lemma runAll_snoc:
  "runAll (fs @ [g]) c = (c1, None) \<Longrightarrow> \<exists>c'. runAll fs c = (c', None) \<and> g c' = (c1, None)"
proof (induction fs arbitrary: c)
  case Nil
  then show ?case by (simp split: prod.splits option.splits)
next
  case (Cons f fs)
  then show ?case by (auto split: prod.splits option.splits)
qed

lemma state_ok: "state (fst (ok c)) = state c"
  by (simp add: ok_def)

lemma state_toggleOverlayHidden: "state (fst (toggleOverlayHidden b c)) = state c"
  by (simp add: toggleOverlayHidden_def ok_def throw_def split: option.splits)

lemma state_buildFocusedState: "state (fst (buildFocusedState ev c)) = state c"
  by (simp add: buildFocusedState_def buildFocusedStateTemplate_def onUIStateUpdate_def
        ok_def throw_def)

lemma state_getElementHref: "state (snd (getElementHref ev t c)) = state c"
  by (simp add: getElementHref_def emit_def Let_def)

lemma state_updateTooltipBehavior: "state (fst (updateTooltipBehavior ev t c)) = state c"
  by (simp add: updateTooltipBehavior_def getElementHref_def emit_def Let_def ok_def throw_def
        split: option.splits)

lemma state_updateTooltipText: "state (fst (updateTooltipText ev t c)) = state c"
  by (simp add: updateTooltipText_def getElementHref_def emit_def Let_def ok_def throw_def
        split: option.splits prod.splits)

lemma state_updateTooltipIcon: "state (fst (updateTooltipIcon ev t c)) = state c"
  by (simp add: updateTooltipIcon_def emit_def Let_def ok_def throw_def split: option.splits)

lemma state_positionTooltip: "state (fst (positionTooltip ev t c)) = state c"
  by (simp add: positionTooltip_def Let_def ok_def throw_def split: option.splits)

lemma state_updateTooltipEl: "state (fst (updateTooltipEl ev t c)) = state c"
  unfolding updateTooltipEl_def
  by (rule runAll_state)
     (auto simp: state_updateTooltipText state_updateTooltipIcon state_positionTooltip)

lemma state_onFocusedStateUpdate: "state (fst (onFocusedStateUpdate ev target c)) = state c"
proof (cases target)
  case None
  then show ?thesis
    by (simp add: onFocusedStateUpdate_def state_toggleOverlayHidden emit_def)
next
  case (Some t)
  have build: "\<And>c. state (fst (runAll [buildFocusedState ev, \<lambda>c. ok (emit StoryAppendChild c)] c))
                  = state c"
    by (rule runAll_state) (auto simp: state_buildFocusedState ok_def emit_def)
  show ?thesis
    unfolding onFocusedStateUpdate_def Some option.case
    by (rule runAll_state)
       (auto simp add: build state_updateTooltipBehavior state_updateTooltipEl
          state_toggleOverlayHidden state_ok simp del: runAll.simps)
qed

lemma state_toggleExpandedView_None:
  "state (fst (toggleExpandedView ev None c)) = state c"
  by (simp add: toggleExpandedView_def ok_def throw_def emit_def Let_def split: option.splits)

lemma state_removeExpandListener: "state (fst (removeExpandListener c)) = state c"
  by (simp add: removeExpandListener_def ok_def throw_def split: option.splits)

lemma state_setState_focus:
  "st = HIDDEN \<or> st = FOCUSED \<Longrightarrow> state (fst (setState ev st target c)) = st"
  by (auto simp add: setState_def state_onFocusedStateUpdate)

lemma state_maybeClose:
  "matches t CLOSE_BUTTON \<Longrightarrow> state (fst (maybeCloseExpandedView ev (Some t) c)) = HIDDEN"
proof -
  assume m: "matches t CLOSE_BUTTON"
  obtain c1 r1 where s1: "setState ev HIDDEN None c = (c1, r1)" by (cases "setState ev HIDDEN None c")
  have h1: "state c1 = HIDDEN" using state_setState_focus [of HIDDEN ev None c] s1 by simp
  have rest: "state (fst (runAll [toggleExpandedView ev None, removeExpandListener,
                  \<lambda>c. ok (emit (StoreDispatch TOGGLE_EXPANDED_COMPONENT None) c)] c1)) = state c1"
    by (rule runAll_state)
       (auto simp: state_toggleExpandedView_None state_removeExpandListener ok_def emit_def)
  show ?thesis using m s1 h1 rest
    by (cases r1) (simp_all add: maybeCloseExpandedView_def)
qed

subsection \<open>The tooltip element across the hiding paths\<close>

lemma tooltip_onFocusedStateUpdate_None:
  "tooltip (fst (onFocusedStateUpdate ev None c)) = tooltip c"
  by (simp add: onFocusedStateUpdate_def toggleOverlayHidden_def emit_def ok_def throw_def
        split: option.splits)

lemma tooltip_setState_HIDDEN:
  "tooltip (fst (setState ev HIDDEN None c)) = tooltip (c :: component)"
  by (simp add: setState_def tooltip_onFocusedStateUpdate_None)

lemma tooltip_toggleExpandedView_None:
  "tooltip (fst (toggleExpandedView ev None c)) = tooltip c"
  by (simp add: toggleExpandedView_def ok_def throw_def emit_def Let_def split: option.splits)

lemma runAll_single: "runAll [f] c = f c"
  by (cases "f c") (simp split: option.splits)

lemma closeFocusedState_eq:
  "tooltip c = Some tt \<Longrightarrow>
   closeFocusedState ev c
     = setState ev HIDDEN None
         (c\<lparr>tooltip := Some (tt\<lparr>expandListener := False, href := None\<rparr>)\<rparr>)"
proof -
  assume tt: "tooltip c = Some tt"
  let ?c1 = "c\<lparr>tooltip := Some (tt\<lparr>expandListener := False, href := None\<rparr>)\<rparr>"
  have "clearTooltip c = (?c1, None)"
    using tt by (simp add: clearTooltip_def ok_def)
  then have "closeFocusedState ev c = runAll [setState ev HIDDEN None] ?c1"
    by (simp add: closeFocusedState_def)
  then show ?thesis by (simp only: runAll_single)
qed

lemma tooltip_closeFocusedState:
  "tooltip c = Some tt \<Longrightarrow>
   tooltip (fst (closeFocusedState ev c)) = Some (tt\<lparr>expandListener := False, href := None\<rparr>)"
  by (simp add: closeFocusedState_eq tooltip_setState_HIDDEN)

lemma state_closeFocusedState:
  "tooltip c = Some tt \<Longrightarrow> state (fst (closeFocusedState ev c)) = HIDDEN"
  by (simp add: closeFocusedState_eq state_setState_focus)

lemma onOutsideTooltipClick_eq:
  "onOutsideTooltipClick ev False c = closeFocusedState ev (emit EventStopPropagation c)"
proof -
  have "onOutsideTooltipClick ev False c
          = runAll [closeFocusedState ev] (emit EventStopPropagation c)"
    by (simp add: onOutsideTooltipClick_def ok_def)
  then show ?thesis by (simp only: runAll_single)
qed

lemma tooltip_expanded_close:
  assumes "matches t CLOSE_BUTTON" and "tooltip c = Some tt"
    and "maybeCloseExpandedView ev (Some t) c = (c', None)"
  shows "tooltip c' = Some (tt\<lparr>expandListener := False\<rparr>)"
proof -
  obtain c1 r1 where s1: "setState ev HIDDEN None c = (c1, r1)"
    by (cases "setState ev HIDDEN None c")
  have t1: "tooltip c1 = Some tt"
    using tooltip_setState_HIDDEN [of ev c] s1 assms(2) by simp
  obtain c2 r2 where s2: "toggleExpandedView ev None c1 = (c2, r2)"
    by (cases "toggleExpandedView ev None c1")
  have t2: "tooltip c2 = Some tt"
    using tooltip_toggleExpandedView_None [of ev c1] s2 t1 by simp
  show ?thesis
    using assms(1,3) s1 s2 t2
    by (cases r1; cases r2)
       (auto simp add: maybeCloseExpandedView_def removeExpandListener_def ok_def emit_def)
qed

subsection \<open>Focusing the same target again\<close>

lemma after_focus:
  assumes "state c = HIDDEN \<or> state c = FOCUSED"
    and "onEmbeddedComponentUpdate ev (Some t) c = (c1, None)"
  shows "state c1 = FOCUSED \<and> previousTarget c1 = Some t \<and> focusedStateOverlay c1 \<noteq> None"
proof -
  have run: "setState ev FOCUSED (Some t) c = (c1, None)"
    using assms by (auto simp add: onEmbeddedComponentUpdate_def)
  have "state (fst (setState ev FOCUSED (Some t) c)) = FOCUSED"
    by (rule state_setState_focus) simp
  with run have st: "state c1 = FOCUSED" by simp
  let ?pre = "[\<lambda>c. if focusedStateOverlay c = None
                  then runAll [buildFocusedState ev, \<lambda>c. ok (emit StoryAppendChild c)] c
                  else ok c,
             updateTooltipBehavior ev t,
             \<lambda>c. if Some (ref t) \<noteq> map_option ref (previousTarget c)
                  then updateTooltipEl ev t c
                  else ok c]"
  let ?set = "\<lambda>c. ok (c\<lparr>previousTarget := Some t\<rparr>)"
  have "runAll ((?pre @ [?set]) @ [toggleOverlayHidden False]) (c\<lparr>state := FOCUSED\<rparr>) = (c1, None)"
    using run by (simp add: setState_def onFocusedStateUpdate_def)
  then obtain c4 where c4: "runAll (?pre @ [?set]) (c\<lparr>state := FOCUSED\<rparr>) = (c4, None)"
    and last: "toggleOverlayHidden False c4 = (c1, None)"
    using runAll_snoc by blast
  from c4 obtain c3 where "?set c3 = (c4, None)"
    using runAll_snoc by blast
  then have p4: "previousTarget c4 = Some t" by (auto simp add: ok_def)
  from last p4 have "previousTarget c1 = Some t \<and> focusedStateOverlay c1 \<noteq> None"
    by (auto simp add: toggleOverlayHidden_def ok_def throw_def split: option.splits)
  with st show ?thesis by simp
qed

lemma boundContent_updateTooltipBehavior:
  "boundContent (fst (updateTooltipBehavior ev t c)) = boundContent c"
  by (simp add: updateTooltipBehavior_def getElementHref_def emit_def Let_def ok_def throw_def
        boundContent_def split: option.splits)

lemma frame_updateTooltipBehavior:
  "previousTarget (fst (updateTooltipBehavior ev t c)) = previousTarget c"
  "focusedStateOverlay (fst (updateTooltipBehavior ev t c)) = focusedStateOverlay c"
  by (simp_all add: updateTooltipBehavior_def getElementHref_def emit_def Let_def ok_def
        throw_def split: option.splits)

lemma refocus_same_target:
  assumes "state c = HIDDEN \<or> state c = FOCUSED"
    and "focusedStateOverlay c \<noteq> None"
    and "map_option ref (previousTarget c) = Some (ref t)"
  shows "boundContent (fst (onEmbeddedComponentUpdate ev (Some t) c)) = boundContent c"
proof -
  let ?c0 = "c\<lparr>state := FOCUSED\<rparr>"
  obtain c2 r2 where b: "updateTooltipBehavior ev t ?c0 = (c2, r2)"
    by (cases "updateTooltipBehavior ev t ?c0")
  have bc: "boundContent c2 = boundContent c"
    using boundContent_updateTooltipBehavior [of ev t ?c0] b by (simp add: boundContent_def)
  have fr: "previousTarget c2 = previousTarget c" "focusedStateOverlay c2 = focusedStateOverlay c"
    using frame_updateTooltipBehavior [of ev t ?c0] b by simp_all
  have "onEmbeddedComponentUpdate ev (Some t) c = onFocusedStateUpdate ev (Some t) ?c0"
    using assms(1) by (auto simp add: onEmbeddedComponentUpdate_def setState_def)
  then show ?thesis
    using assms(2,3) b bc fr
    by (cases r2)
       (auto simp add: onFocusedStateUpdate_def ok_def throw_def toggleOverlayHidden_def
          boundContent_def split: option.splits)
qed

subsection \<open>An invalid href or icon URL\<close>

lemma updateTooltipBehavior_invalid_href:
  assumes "matches t LINK" and "\<not> isProtocolValid ev (getAttribute t ''href'')"
    and "tooltip c = Some tt"
  shows "updateTooltipBehavior ev t c
           = (c\<lparr>effects := effects c @ [UserError ''The tooltip url is invalid''],
                 tooltip := Some (tt\<lparr>href := addAttributesToElement ev (href tt) None\<rparr>)\<rparr>,
              None)"
  using assms
  by (simp add: updateTooltipBehavior_def getElementHref_def emit_def ok_def Let_def)

lemma updateTooltipIcon_invalid_icon:
  assumes "\<not> isProtocolValid ev (getAttribute t ''data-tooltip-icon'')"
  shows "updateTooltipIcon ev t c
           = (c\<lparr>effects := effects c @ [UserError ''The tooltip icon url is invalid'']\<rparr>, None)"
  using assms by (simp add: updateTooltipIcon_def emit_def ok_def Let_def)

subsection \<open>The concrete runs\<close>

lemma lower_twitter: "toLowerCase ''AMP-TWITTER'' = ''amp-twitter''" by code_simp
lemma lower_a: "toLowerCase ''A'' = ''a''" by code_simp

lemmas method_defs =
  onEmbeddedComponentUpdate_def setState_def onFocusedStateUpdate_def toggleOverlayHidden_def
  buildFocusedState_def buildFocusedStateTemplate_def onUIStateUpdate_def
  updateTooltipBehavior_def updateTooltipEl_def updateTooltipText_def updateTooltipIcon_def
  positionTooltip_def getElementHref_def toggleExpandedView_def animateExpanded_def
  buildAndAppendExpandedViewOverlay_def maybeCloseExpandedView_def removeExpandListener_def
  onExpandComponent_def closeFocusedState_def clearTooltip_def onOutsideTooltipClick_def
  onCurrentPageIdUpdate_def ok_def throw_def emit_def

lemmas geometry_defs =
  measurePlacement_def verticalPositioning_def horizontalPositioning_def initialPlacement_def
  animateExpandedMeasure_def bottom_def MIN_VERTICAL_SPACE_def EDGE_PADDING_def

lemmas sample_defs =
  sampleEnv_def twitterTarget_def linkTarget_def javascriptLinkTarget_def
  closeButtonTarget_def constructor_def specIsProtocolValid_def startsWith_def
  domAddAttributesToElement_def getAttribute_def truthy_def LINK_def CLOSE_BUTTON_def
  EXPANDABLE_COMPONENTS_def HIDDEN_def FOCUSED_def EXPANDED_def DEFAULT_ICON_SRC_def

lemma focusedOnTwitter_run:
  "onEmbeddedComponentUpdate sampleEnv (Some twitterTarget) constructor =
     (\<lparr>state = FOCUSED, focusedStateOverlay = Some \<lparr>hidden = False, desktop = False\<rparr>,
       tooltip = Some \<lparr>href = None, expandListener = True, textContent = ''Tweet'',
                       iconSrc = Some DEFAULT_ICON_SRC, iconHidden = True,
                       arrowOnTopClass = False, styleTop = Some 44, styleLeft = Some 8,
                       arrowStyleLeft = Some 87\<rparr>,
       expandedViewOverlay = None, previousTarget = Some twitterTarget,
       effects = [StoryAppendChild]\<rparr>, None)"
  by (simp add: method_defs geometry_defs sample_defs lower_twitter Let_def)

lemma focusedOnTwitter_eq:
  "focusedOnTwitter =
     \<lparr>state = FOCUSED, focusedStateOverlay = Some \<lparr>hidden = False, desktop = False\<rparr>,
       tooltip = Some \<lparr>href = None, expandListener = True, textContent = ''Tweet'',
                       iconSrc = Some DEFAULT_ICON_SRC, iconHidden = True,
                       arrowOnTopClass = False, styleTop = Some 44, styleLeft = Some 8,
                       arrowStyleLeft = Some 87\<rparr>,
       expandedViewOverlay = None, previousTarget = Some twitterTarget,
       effects = [StoryAppendChild]\<rparr>"
  by (simp add: focusedOnTwitter_def focusedOnTwitter_run)

lemma expandedOnTwitter_run:
  "onExpandComponent sampleEnv focusedOnTwitter =
     (\<lparr>state = EXPANDED, focusedStateOverlay = Some \<lparr>hidden = True, desktop = False\<rparr>,
       tooltip = Some \<lparr>href = None, expandListener = True, textContent = ''Tweet'',
                       iconSrc = Some DEFAULT_ICON_SRC, iconHidden = True,
                       arrowOnTopClass = False, styleTop = Some 44, styleLeft = Some 8,
                       arrowStyleLeft = Some 87\<rparr>,
       expandedViewOverlay = Some True, previousTarget = Some twitterTarget,
       effects = [StoryAppendChild, EventPreventDefault, EventStopPropagation,
                  StoreDispatch TOGGLE_EMBEDDED_COMPONENT None,
                  TargetAnimateExpandIn 1 \<lparr>translateX = - 100, translateY = 150\<rparr>,
                  PageAppendOverlay, PageExpandedMode True,
                  StoreDispatch TOGGLE_EXPANDED_COMPONENT (Some 1)]\<rparr>, None)"
  by (simp add: focusedOnTwitter_eq)
     (simp add: method_defs geometry_defs sample_defs Let_def)

lemma expandedOnTwitter_eq:
  "expandedOnTwitter =
     \<lparr>state = EXPANDED, focusedStateOverlay = Some \<lparr>hidden = True, desktop = False\<rparr>,
       tooltip = Some \<lparr>href = None, expandListener = True, textContent = ''Tweet'',
                       iconSrc = Some DEFAULT_ICON_SRC, iconHidden = True,
                       arrowOnTopClass = False, styleTop = Some 44, styleLeft = Some 8,
                       arrowStyleLeft = Some 87\<rparr>,
       expandedViewOverlay = Some True, previousTarget = Some twitterTarget,
       effects = [StoryAppendChild, EventPreventDefault, EventStopPropagation,
                  StoreDispatch TOGGLE_EMBEDDED_COMPONENT None,
                  TargetAnimateExpandIn 1 \<lparr>translateX = - 100, translateY = 150\<rparr>,
                  PageAppendOverlay, PageExpandedMode True,
                  StoreDispatch TOGGLE_EXPANDED_COMPONENT (Some 1)]\<rparr>"
  by (simp add: expandedOnTwitter_def expandedOnTwitter_run)

lemma focusedOnLink_run:
  "onEmbeddedComponentUpdate sampleEnv (Some linkTarget) constructor =
     (\<lparr>state = FOCUSED, focusedStateOverlay = Some \<lparr>hidden = False, desktop = False\<rparr>,
       tooltip = Some \<lparr>href = Some ''https://example.com/'', expandListener = False,
                       textContent = ''https://example.com/'',
                       iconSrc = Some DEFAULT_ICON_SRC, iconHidden = True,
                       arrowOnTopClass = False, styleTop = Some 244, styleLeft = Some 100,
                       arrowStyleLeft = Some 95\<rparr>,
       expandedViewOverlay = None, previousTarget = Some linkTarget,
       effects = [StoryAppendChild]\<rparr>, None)"
  by (simp add: method_defs geometry_defs sample_defs lower_a Let_def)

lemma focusedOnLink_eq:
  "focusedOnLink =
     \<lparr>state = FOCUSED, focusedStateOverlay = Some \<lparr>hidden = False, desktop = False\<rparr>,
       tooltip = Some \<lparr>href = Some ''https://example.com/'', expandListener = False,
                       textContent = ''https://example.com/'',
                       iconSrc = Some DEFAULT_ICON_SRC, iconHidden = True,
                       arrowOnTopClass = False, styleTop = Some 244, styleLeft = Some 100,
                       arrowStyleLeft = Some 95\<rparr>,
       expandedViewOverlay = None, previousTarget = Some linkTarget,
       effects = [StoryAppendChild]\<rparr>"
  by (simp add: focusedOnLink_def focusedOnLink_run)

lemma closeExpanded_run:
  "onEmbeddedComponentUpdate sampleEnv (Some closeButtonTarget) expandedOnTwitter =
     (\<lparr>state = HIDDEN, focusedStateOverlay = Some \<lparr>hidden = True, desktop = False\<rparr>,
       tooltip = Some \<lparr>href = None, expandListener = False, textContent = ''Tweet'',
                       iconSrc = Some DEFAULT_ICON_SRC, iconHidden = True,
                       arrowOnTopClass = False, styleTop = Some 44, styleLeft = Some 8,
                       arrowStyleLeft = Some 87\<rparr>,
       expandedViewOverlay = Some False, previousTarget = Some twitterTarget,
       effects = [StoryAppendChild, EventPreventDefault, EventStopPropagation,
                  StoreDispatch TOGGLE_EMBEDDED_COMPONENT None,
                  TargetAnimateExpandIn 1 \<lparr>translateX = - 100, translateY = 150\<rparr>,
                  PageAppendOverlay, PageExpandedMode True,
                  StoreDispatch TOGGLE_EXPANDED_COMPONENT (Some 1),
                  StoreDispatch TOGGLE_EMBEDDED_COMPONENT None,
                  PageExpandedMode False, TargetResetTransform 1,
                  StoreDispatch TOGGLE_EXPANDED_COMPONENT None]\<rparr>, None)"
  by (simp add: expandedOnTwitter_eq)
     (simp add: method_defs sample_defs Let_def)

subsection \<open>The claims on the state machine\<close>

text \<open>
  C1: for every call of \<^verbatim>\<open>onEmbeddedComponentUpdate_\<close>, a null target from
  \<open>HIDDEN\<close> or \<open>FOCUSED\<close> leaves the state \<open>HIDDEN\<close>; from \<open>EXPANDED\<close> an update
  whose target is null or does not match the close button returns the component as it
  was, with no effect and no error; an update that matches the close button leaves the
  state \<open>HIDDEN\<close>.
\<close>

theorem onEmbeddedComponentUpdate_transitions:
  "(state c = HIDDEN \<or> state c = FOCUSED \<longrightarrow>
      state (fst (onEmbeddedComponentUpdate ev None c)) = HIDDEN)
   \<and> (state c = EXPANDED \<and> target = None \<longrightarrow>
      onEmbeddedComponentUpdate ev target c = (c, None))
   \<and> (state c = EXPANDED \<and> target = Some t \<and> \<not> matches t CLOSE_BUTTON \<longrightarrow>
      onEmbeddedComponentUpdate ev target c = (c, None))
   \<and> (state c = EXPANDED \<and> target = Some t \<and> matches t CLOSE_BUTTON \<longrightarrow>
      state (fst (onEmbeddedComponentUpdate ev target c)) = HIDDEN)"
proof (intro conjI impI)
  assume "state c = HIDDEN \<or> state c = FOCUSED"
  then show "state (fst (onEmbeddedComponentUpdate ev None c)) = HIDDEN"
    by (auto simp add: onEmbeddedComponentUpdate_def state_setState_focus)
next
  assume "state c = EXPANDED \<and> target = None"
  then show "onEmbeddedComponentUpdate ev target c = (c, None)"
    by (simp add: onEmbeddedComponentUpdate_def maybeCloseExpandedView_def ok_def
          ComponentState_distinct)
next
  assume "state c = EXPANDED \<and> target = Some t \<and> \<not> matches t CLOSE_BUTTON"
  then show "onEmbeddedComponentUpdate ev target c = (c, None)"
    by (simp add: onEmbeddedComponentUpdate_def maybeCloseExpandedView_def ok_def
          ComponentState_distinct)
next
  assume "state c = EXPANDED \<and> target = Some t \<and> matches t CLOSE_BUTTON"
  then show "state (fst (onEmbeddedComponentUpdate ev target c)) = HIDDEN"
    by (simp add: onEmbeddedComponentUpdate_def state_maybeClose ComponentState_distinct)
qed

text \<open>
  C1 on the concrete components: null from the constructor and from the focused link,
  null and a link while expanded, and the close button while expanded.
\<close>

theorem onEmbeddedComponentUpdate_transitions_witness:
  "state (fst (onEmbeddedComponentUpdate sampleEnv None constructor)) = HIDDEN
   \<and> state (fst (onEmbeddedComponentUpdate sampleEnv None focusedOnLink)) = HIDDEN
   \<and> onEmbeddedComponentUpdate sampleEnv None expandedOnTwitter = (expandedOnTwitter, None)
   \<and> onEmbeddedComponentUpdate sampleEnv (Some linkTarget) expandedOnTwitter
       = (expandedOnTwitter, None)
   \<and> state (fst (onEmbeddedComponentUpdate sampleEnv (Some closeButtonTarget)
                   expandedOnTwitter)) = HIDDEN"
  using onEmbeddedComponentUpdate_transitions [of constructor sampleEnv None linkTarget]
        onEmbeddedComponentUpdate_transitions [of focusedOnLink sampleEnv None linkTarget]
        onEmbeddedComponentUpdate_transitions [of expandedOnTwitter sampleEnv None linkTarget]
        onEmbeddedComponentUpdate_transitions [of expandedOnTwitter sampleEnv "Some linkTarget" linkTarget]
        onEmbeddedComponentUpdate_transitions [of expandedOnTwitter sampleEnv "Some closeButtonTarget" closeButtonTarget]
  by (simp add: constructor_def focusedOnLink_eq expandedOnTwitter_eq CLOSE_BUTTON_def
        linkTarget_def closeButtonTarget_def)

text \<open>
  C7, evaluated at its own example: a link whose href is \<^verbatim>\<open>javascript:alert(1)\<close>,
  delivered to the constructor's state. The user error is logged and \<open>FOCUSED\<close> is
  reached, but \<^verbatim>\<open>updateTooltipBehavior_\<close> still hands the \<^verbatim>\<open>undefined\<close> result of
  \<^verbatim>\<open>getElementHref_\<close> to \<^verbatim>\<open>addAttributesToElement\<close>, and the tooltip gets an href
  attribute.
\<close>

theorem invalid_href_attribute_written:
  "matches javascriptLinkTarget LINK
   \<and> \<not> isProtocolValid sampleEnv (getAttribute javascriptLinkTarget ''href'')
   \<and> onEmbeddedComponentUpdate sampleEnv (Some javascriptLinkTarget) constructor
       = (\<lparr>state = FOCUSED, focusedStateOverlay = Some \<lparr>hidden = False, desktop = False\<rparr>,
           tooltip = Some \<lparr>href = Some ''undefined'', expandListener = False,
                           textContent = [], iconSrc = Some DEFAULT_ICON_SRC,
                           iconHidden = True, arrowOnTopClass = True, styleTop = Some 66,
                           styleLeft = Some 100, arrowStyleLeft = Some 95\<rparr>,
           expandedViewOverlay = None, previousTarget = Some javascriptLinkTarget,
           effects = [StoryAppendChild, UserError ''The tooltip url is invalid'',
                      UserError ''The tooltip url is invalid'']\<rparr>, None)"
  by (simp add: method_defs geometry_defs sample_defs lower_a Let_def)

text \<open>
  C8, as stated, at a concrete input: with the current state 7, and with the requested
  state 7, the operation returns without an error; it has only logged a warning.
\<close>

theorem unknown_state_counterexample:
  "7 \<notin> {HIDDEN, FOCUSED, EXPANDED}
   \<and> onEmbeddedComponentUpdate sampleEnv (Some linkTarget) (constructor\<lparr>state := 7\<rparr>)
       = (constructor\<lparr>state := 7, effects := [DevWarn 7]\<rparr>, None)
   \<and> setState sampleEnv 7 (Some linkTarget) constructor
       = (constructor\<lparr>effects := [DevWarn HIDDEN]\<rparr>, None)"
  by (simp add: onEmbeddedComponentUpdate_def setState_def ok_def emit_def constructor_def
        HIDDEN_def FOCUSED_def EXPANDED_def)

text \<open>
  C8, amended: when the current state (for \<^verbatim>\<open>onEmbeddedComponentUpdate_\<close>) or the
  requested state (for \<^verbatim>\<open>setState_\<close>) is not one of \<open>HIDDEN\<close>, \<open>FOCUSED\<close>,
  \<open>EXPANDED\<close>, the operation logs one developer warning that names the current state
  and returns normally; the component is otherwise unchanged and nothing is thrown.
\<close>

theorem unknown_state_warns:
  "(state c \<noteq> HIDDEN \<and> state c \<noteq> FOCUSED \<and> state c \<noteq> EXPANDED \<longrightarrow>
      onEmbeddedComponentUpdate ev target c
        = (c\<lparr>effects := effects c @ [DevWarn (state c)]\<rparr>, None))
   \<and> (st \<noteq> HIDDEN \<and> st \<noteq> FOCUSED \<and> st \<noteq> EXPANDED \<longrightarrow>
      setState ev st target c = (c\<lparr>effects := effects c @ [DevWarn (state c)]\<rparr>, None))"
  by (simp add: onEmbeddedComponentUpdate_def setState_def ok_def emit_def)

text \<open>The amended C8 on the focused link, with the state 3.\<close>

theorem unknown_state_warns_witness:
  "onEmbeddedComponentUpdate sampleEnv None (focusedOnLink\<lparr>state := 3\<rparr>)
     = (focusedOnLink\<lparr>state := 3, effects := [StoryAppendChild, DevWarn 3]\<rparr>, None)
   \<and> setState sampleEnv 3 None focusedOnLink
     = (focusedOnLink\<lparr>effects := [StoryAppendChild, DevWarn FOCUSED]\<rparr>, None)"
  using unknown_state_warns [of "focusedOnLink\<lparr>state := 3\<rparr>" sampleEnv None 3]
        unknown_state_warns [of focusedOnLink sampleEnv None 3]
  by (simp add: focusedOnLink_eq HIDDEN_def FOCUSED_def EXPANDED_def)

text \<open>
  C9: when an update for the target \<open>t\<close> has succeeded from \<open>HIDDEN\<close> or
  \<open>FOCUSED\<close>, a second update for the same element (the same \<open>ref\<close>, whatever its
  attributes, its rectangle and the layout have become) leaves the tooltip's text, icon
  and position as they are: the content update is skipped.
\<close>

theorem refocus_no_rebinding:
  assumes "state c = HIDDEN \<or> state c = FOCUSED"
    and "onEmbeddedComponentUpdate ev (Some t) c = (c1, None)"
    and "ref t' = ref t"
  shows "boundContent (fst (onEmbeddedComponentUpdate ev' (Some t') c1)) = boundContent c1"
proof -
  from after_focus [OF assms(1,2)]
  have inv: "state c1 = FOCUSED" "previousTarget c1 = Some t" "focusedStateOverlay c1 \<noteq> None"
    by simp_all
  show ?thesis
    by (rule refocus_same_target) (simp_all add: inv assms(3))
qed

text \<open>
  C9 on the link: focused once from the constructor, then delivered again with a new
  tooltip text, a new rectangle and a narrower tooltip; the content is that of the
  first binding.
\<close>

theorem refocus_no_rebinding_witness:
  "boundContent
     (fst (onEmbeddedComponentUpdate (sampleEnv\<lparr>tooltipOffsetWidth := 100\<rparr>)
        (Some (linkTarget\<lparr>attributes := [(''href'', ''https://example.com/''),
                                          (''data-tooltip-text'', ''Changed'')],
                 boundingClientRect := \<lparr>top' = 10, left = 0, width = 40, height = 40\<rparr>\<rparr>))
        focusedOnLink))
     = Some (''https://example.com/'', Some DEFAULT_ICON_SRC, True, False,
             Some 244, Some 100, Some 95)"
proof -
  have h1: "state constructor = HIDDEN \<or> state constructor = FOCUSED"
    by (simp add: constructor_def)
  have h2: "onEmbeddedComponentUpdate sampleEnv (Some linkTarget) constructor
              = (focusedOnLink, None)"
    by (simp add: focusedOnLink_run focusedOnLink_eq)
  have h3: "ref (linkTarget\<lparr>attributes := [(''href'', ''https://example.com/''),
                                          (''data-tooltip-text'', ''Changed'')],
                 boundingClientRect := \<lparr>top' = 10, left = 0, width = 40, height = 40\<rparr>\<rparr>)
              = ref linkTarget"
    by simp
  show ?thesis
    using refocus_no_rebinding [OF h1 h2 h3, of "sampleEnv\<lparr>tooltipOffsetWidth := 100\<rparr>"]
    by (simp add: boundContent_def focusedOnLink_eq)
qed

text \<open>
  C10: hiding by a null update from \<open>FOCUSED\<close> changes the state, the overlay's hidden
  class and the store, and nothing else; in particular the tooltip keeps its href and
  its expand listener. \<^verbatim>\<open>closeFocusedState_\<close>, reached by a click outside the tooltip
  or by a page change, removes both; closing the expanded view removes the listener.
\<close>

theorem hide_keeps_tooltip_behaviour:
  "(state c = FOCUSED \<and> focusedStateOverlay c = Some ov \<longrightarrow>
      onEmbeddedComponentUpdate ev None c
        = (c\<lparr>state := HIDDEN,
              focusedStateOverlay := Some (ov\<lparr>hidden := True\<rparr>),
              effects := effects c @ [StoreDispatch TOGGLE_EMBEDDED_COMPONENT None]\<rparr>, None))
   \<and> (state c = FOCUSED \<longrightarrow>
      tooltip (fst (onEmbeddedComponentUpdate ev None c)) = tooltip c)
   \<and> (tooltip c = Some tt \<longrightarrow>
      tooltip (fst (closeFocusedState ev c))
        = Some (tt\<lparr>expandListener := False, href := None\<rparr>)
      \<and> tooltip (fst (onOutsideTooltipClick ev False c))
        = Some (tt\<lparr>expandListener := False, href := None\<rparr>)
      \<and> tooltip (fst (onCurrentPageIdUpdate ev True c))
        = Some (tt\<lparr>expandListener := False, href := None\<rparr>)
      \<and> state (fst (closeFocusedState ev c)) = HIDDEN)
   \<and> (state c = EXPANDED \<and> matches t CLOSE_BUTTON \<and> tooltip c = Some tt
      \<and> onEmbeddedComponentUpdate ev (Some t) c = (c', None) \<longrightarrow>
      tooltip c' = Some (tt\<lparr>expandListener := False\<rparr>))"
proof (intro conjI impI)
  assume "state c = FOCUSED \<and> focusedStateOverlay c = Some ov"
  then show "onEmbeddedComponentUpdate ev None c
        = (c\<lparr>state := HIDDEN,
              focusedStateOverlay := Some (ov\<lparr>hidden := True\<rparr>),
              effects := effects c @ [StoreDispatch TOGGLE_EMBEDDED_COMPONENT None]\<rparr>, None)"
    by (simp add: onEmbeddedComponentUpdate_def setState_def onFocusedStateUpdate_def
          toggleOverlayHidden_def emit_def ok_def)
next
  assume "state c = FOCUSED"
  then show "tooltip (fst (onEmbeddedComponentUpdate ev None c)) = tooltip c"
    by (simp add: onEmbeddedComponentUpdate_def tooltip_setState_HIDDEN)
next
  assume tt: "tooltip c = Some tt"
  then show "tooltip (fst (closeFocusedState ev c))
        = Some (tt\<lparr>expandListener := False, href := None\<rparr>)"
    by (rule tooltip_closeFocusedState)
  have "tooltip (emit EventStopPropagation c) = Some tt"
    using tt by (simp add: emit_def)
  then show "tooltip (fst (onOutsideTooltipClick ev False c))
        = Some (tt\<lparr>expandListener := False, href := None\<rparr>)"
    by (simp add: onOutsideTooltipClick_eq tooltip_closeFocusedState)
  from tt show "tooltip (fst (onCurrentPageIdUpdate ev True c))
        = Some (tt\<lparr>expandListener := False, href := None\<rparr>)"
    by (simp add: onCurrentPageIdUpdate_def tooltip_closeFocusedState)
  from tt show "state (fst (closeFocusedState ev c)) = HIDDEN"
    by (rule state_closeFocusedState)
next
  assume "state c = EXPANDED \<and> matches t CLOSE_BUTTON \<and> tooltip c = Some tt
      \<and> onEmbeddedComponentUpdate ev (Some t) c = (c', None)"
  then have a: "state c = EXPANDED" "matches t CLOSE_BUTTON" "tooltip c = Some tt"
    and run: "onEmbeddedComponentUpdate ev (Some t) c = (c', None)"
    by simp_all
  from run a(1) have "maybeCloseExpandedView ev (Some t) c = (c', None)"
    by (simp add: onEmbeddedComponentUpdate_def ComponentState_distinct)
  with a(2,3) show "tooltip c' = Some (tt\<lparr>expandListener := False\<rparr>)"
    by (rule tooltip_expanded_close)
qed

text \<open>
  C10 on the concrete components: the link keeps its href and the expandable target its
  listener across a null update; the three closing paths remove them.
\<close>

theorem hide_keeps_tooltip_behaviour_witness:
  "onEmbeddedComponentUpdate sampleEnv None focusedOnLink
     = (focusedOnLink\<lparr>state := HIDDEN,
          focusedStateOverlay := Some \<lparr>hidden = True, desktop = False\<rparr>,
          effects := [StoryAppendChild, StoreDispatch TOGGLE_EMBEDDED_COMPONENT None]\<rparr>, None)
   \<and> map_option href (tooltip (fst (onEmbeddedComponentUpdate sampleEnv None focusedOnLink)))
       = Some (Some ''https://example.com/'')
   \<and> map_option expandListener
        (tooltip (fst (onEmbeddedComponentUpdate sampleEnv None focusedOnTwitter))) = Some True
   \<and> map_option href (tooltip (fst (closeFocusedState sampleEnv focusedOnLink))) = Some None
   \<and> map_option expandListener
        (tooltip (fst (onOutsideTooltipClick sampleEnv False focusedOnTwitter))) = Some False
   \<and> map_option href (tooltip (fst (onCurrentPageIdUpdate sampleEnv True focusedOnLink)))
       = Some None
   \<and> map_option expandListener
        (tooltip (fst (onEmbeddedComponentUpdate sampleEnv (Some closeButtonTarget)
                         expandedOnTwitter))) = Some False"
proof -
  let ?tl = "\<lparr>href = Some ''https://example.com/'', expandListener = False,
              textContent = ''https://example.com/'',
              iconSrc = Some DEFAULT_ICON_SRC, iconHidden = True,
              arrowOnTopClass = False, styleTop = Some 244, styleLeft = Some 100,
              arrowStyleLeft = Some (95::real)\<rparr>"
  let ?tw = "\<lparr>href = None, expandListener = True, textContent = ''Tweet'',
              iconSrc = Some DEFAULT_ICON_SRC, iconHidden = True,
              arrowOnTopClass = False, styleTop = Some 44, styleLeft = Some 8,
              arrowStyleLeft = Some (87::real)\<rparr>"
  let ?closed = "fst (onEmbeddedComponentUpdate sampleEnv (Some closeButtonTarget)
                        expandedOnTwitter)"
  have run: "onEmbeddedComponentUpdate sampleEnv (Some closeButtonTarget) expandedOnTwitter
               = (?closed, None)"
    by (simp add: closeExpanded_run)
  have m: "matches closeButtonTarget CLOSE_BUTTON"
    by (simp add: closeButtonTarget_def CLOSE_BUTTON_def)
  show ?thesis
    using hide_keeps_tooltip_behaviour [of focusedOnLink "\<lparr>hidden = False, desktop = False\<rparr>" sampleEnv ?tl
                      closeButtonTarget ?closed]
          hide_keeps_tooltip_behaviour [of focusedOnTwitter "\<lparr>hidden = False, desktop = False\<rparr>" sampleEnv ?tw
                      closeButtonTarget ?closed]
          hide_keeps_tooltip_behaviour [of expandedOnTwitter "\<lparr>hidden = True, desktop = False\<rparr>" sampleEnv ?tw
                      closeButtonTarget ?closed]
          run m
    by (simp add: focusedOnLink_eq focusedOnTwitter_eq expandedOnTwitter_eq
          ComponentState_distinct)
qed

end
